theory Spec2Isabelle
  imports Main "HOL-Library.Monad_Syntax"
begin

section \<open>The FreeStyle Lite driver (glucometerutils/drivers/fslite.py)\<close>

text \<open>
  The driver decodes the answer of the meter to the \<^verbatim>\<open>mem\<close> command, a list of text
  lines, into device information, a log of readings and a checksum. Python names that
  start with an underscore lose it here (\<^verbatim>\<open>_parse_clock\<close> is \<open>parse_clock\<close>), and keys and
  attributes that end with one lose it too (\<^verbatim>\<open>device_nrresults_\<close> is \<open>device_nrresults\<close>),
  since an Isabelle name can neither start nor end with an underscore.

  Every integer of the module is a length, an index, a character code or the value of
  a string of digits, so integers are natural numbers. Strings are lists of characters.
  An exception is a value of the type \<open>error\<close>, and a function that can raise returns
  \<open>error + 'a\<close>. The records written by \<^verbatim>\<open>logging.warning\<close> are returned as a list of
  messages beside the result; \<^verbatim>\<open>logging.debug\<close> records are left out (they precede a
  raise and take no part in the control flow).
\<close>

subsection \<open>Exceptions\<close>

datatype error =
    InvalidResponse string
  | InvalidChecksum nat nat
  | KeyError string
  | ValueError
  | IndexError
  | UnboundLocalError string

definition bind_e :: "error + 'a \<Rightarrow> ('a \<Rightarrow> error + 'b) \<Rightarrow> error + 'b" where
  "bind_e m f = (case m of Inl e \<Rightarrow> Inl e | Inr x \<Rightarrow> f x)"

subsection \<open>Python built-ins used by the driver\<close>

definition ord :: "char \<Rightarrow> nat" where
  "ord c = of_char c"

definition LF :: char where
  "LF = CHR 0x0A"


definition is_digit :: "char \<Rightarrow> bool" where
  "is_digit c = (48 \<le> ord c \<and> ord c \<le> 57)"

definition is_upper :: "char \<Rightarrow> bool" where
  "is_upper c = (65 \<le> ord c \<and> ord c \<le> 90)"

definition is_lower :: "char \<Rightarrow> bool" where
  "is_lower c = (97 \<le> ord c \<and> ord c \<le> 122)"

definition is_hex_upper :: "char \<Rightarrow> bool" where
  "is_hex_upper c = (is_digit c \<or> (65 \<le> ord c \<and> ord c \<le> 70))"

text \<open>The ASCII characters that \<^verbatim>\<open>int\<close> and \<^verbatim>\<open>float\<close> strip as white space.\<close>

definition is_space :: "char \<Rightarrow> bool" where
  "is_space c = ((9 \<le> ord c \<and> ord c \<le> 13) \<or> (28 \<le> ord c \<and> ord c \<le> 32))"

definition strip :: "string \<Rightarrow> string" where
  "strip s = rev (dropWhile is_space (rev (dropWhile is_space s)))"

text \<open>\<^verbatim>\<open>sep.join(xs)\<close>.\<close>

fun join :: "string \<Rightarrow> string list \<Rightarrow> string" where
  "join sep [] = []"
| "join sep [x] = x"
| "join sep (x # y # ys) = x @ sep @ join sep (y # ys)"

text \<open>\<^verbatim>\<open>s.split(sep)\<close> for a separator of one character.\<close>

fun split :: "char \<Rightarrow> string \<Rightarrow> string list" where
  "split sep [] = [[]]"
| "split sep (c # cs) =
     (if c = sep then [] # split sep cs
      else (case split sep cs of [] \<Rightarrow> [[c]] | ys # yss \<Rightarrow> (c # ys) # yss))"

text \<open>The value of a string of digits, in a base; \<open>digit_val\<close> reads one digit.\<close>

definition digit_val :: "char \<Rightarrow> nat" where
  "digit_val c =
     (if is_digit c then ord c - 48
      else if is_upper c then ord c - 55
      else ord c - 87)"

definition digits_val :: "nat \<Rightarrow> string \<Rightarrow> nat" where
  "digits_val b s = foldl (\<lambda>acc c. acc * b + digit_val c) 0 s"

text \<open>
  \<^verbatim>\<open>int(s)\<close>: the white space around the digits is stripped. Python also reads a sign and
  underscores between digits; no argument of \<^verbatim>\<open>int\<close> in this module can hold either,
  since each is a group of digits of a matched line, or a line that matched the count
  grammar. Anything else raises \<^verbatim>\<open>ValueError\<close>.
\<close>

definition int_str :: "string \<Rightarrow> error + nat" where
  "int_str s =
     (let t = strip s
      in if t \<noteq> [] \<and> list_all is_digit t then Inr (digits_val 10 t) else Inl ValueError)"

text \<open>
  \<^verbatim>\<open>int(s, 16)\<close> on the checksum group: the prefix \<^verbatim>\<open>0x\<close> is allowed before the
  hexadecimal digits.
\<close>

definition is_hex :: "char \<Rightarrow> bool" where
  "is_hex c = (is_hex_upper c \<or> (97 \<le> ord c \<and> ord c \<le> 102))"

definition int_str16 :: "string \<Rightarrow> error + nat" where
  "int_str16 s =
     (let t = strip s;
          u = (if take 2 t = ''0x'' \<or> take 2 t = ''0X'' then drop 2 t else t)
      in if u \<noteq> [] \<and> list_all is_hex u then Inr (digits_val 16 u) else Inl ValueError)"

text \<open>
  A Python float. The driver builds one from \<^verbatim>\<open>float("inf")\<close> or from the reading group
  of a matched line, which is a string of digits or empty: the finite values are
  natural numbers (below 1000, so exact as floats). \<^verbatim>\<open>float('')\<close> raises \<^verbatim>\<open>ValueError\<close>.
\<close>

datatype py_float = Finite nat | PosInf

definition float_str :: "string \<Rightarrow> error + py_float" where
  "float_str s =
     (let t = strip s
      in if t \<noteq> [] \<and> list_all is_digit t then Inr (Finite (digits_val 10 t))
         else Inl ValueError)"

text \<open>\<^verbatim>\<open>'%d' % n\<close>: the decimal digits of a number.\<close>

fun str_nat :: "nat \<Rightarrow> string" where
  "str_nat n =
     (if n < 10 then [char_of (48 + n)]
      else str_nat (n div 10) @ [char_of (48 + n mod 10)])"

declare str_nat.simps [simp del]

text \<open>\<^verbatim>\<open>xs[i]\<close> raises \<^verbatim>\<open>IndexError\<close> out of range.\<close>

definition item :: "'a list \<Rightarrow> nat \<Rightarrow> error + 'a" where
  "item xs i = (if i < length xs then Inr (xs ! i) else Inl IndexError)"

subsection \<open>datetime.datetime\<close>

record datetime =
  dt_year :: nat
  dt_month :: nat
  dt_day :: nat
  dt_hour :: nat
  dt_minute :: nat
  dt_second :: nat

definition is_leap :: "nat \<Rightarrow> bool" where
  "is_leap y = (y mod 4 = 0 \<and> (y mod 100 \<noteq> 0 \<or> y mod 400 = 0))"

definition days_in_month :: "nat \<Rightarrow> nat \<Rightarrow> nat" where
  "days_in_month y m =
     (if m = 2 then (if is_leap y then 29 else 28)
      else if m = 4 \<or> m = 6 \<or> m = 9 \<or> m = 11 then 30 else 31)"

text \<open>The constructor raises \<^verbatim>\<open>ValueError\<close> on a field out of range.\<close>

definition datetime_new :: "nat \<Rightarrow> nat \<Rightarrow> nat \<Rightarrow> nat \<Rightarrow> nat \<Rightarrow> nat \<Rightarrow> error + datetime" where
  "datetime_new y m d h mi s =
     (if \<not> (1 \<le> y \<and> y \<le> 9999) then Inl ValueError
      else if \<not> (1 \<le> m \<and> m \<le> 12) then Inl ValueError
      else if \<not> (1 \<le> d \<and> d \<le> days_in_month y m) then Inl ValueError
      else if \<not> h \<le> 23 then Inl ValueError
      else if \<not> mi \<le> 59 then Inl ValueError
      else if \<not> s \<le> 59 then Inl ValueError
      else Inr \<lparr>dt_year = y, dt_month = m, dt_day = d,
                dt_hour = h, dt_minute = mi, dt_second = s\<rparr>)"

subsection \<open>The line grammars\<close>

text \<open>
  The regular expressions have fields of fixed width, so a match reads the line from
  left to right: \<open>lit\<close> consumes a literal, \<open>cls\<close> consumes \<open>n\<close> characters of a class and
  returns them. \<^verbatim>\<open>$\<close> matches at the end of the string and also before a line feed that
  ends the string.
\<close>

definition lit :: "string \<Rightarrow> string \<Rightarrow> string option" where
  "lit l s = (if take (length l) s = l then Some (drop (length l) s) else None)"

definition cls :: "(char \<Rightarrow> bool) \<Rightarrow> nat \<Rightarrow> string \<Rightarrow> (string \<times> string) option" where
  "cls p n s =
     (if n \<le> length s \<and> list_all p (take n s) then Some (take n s, drop n s) else None)"

definition eos :: "string \<Rightarrow> bool" where
  "eos s = (s = [] \<or> s = [LF])"

record clock_match =
  c_month :: string
  c_day :: string
  c_year :: string
  c_time :: string

definition CLOCK_RE :: "string \<Rightarrow> clock_match option" where
  "CLOCK_RE s = do {
     (m1, r) \<leftarrow> cls is_upper 1 s;
     (m2, r) \<leftarrow> cls is_lower 2 r;
     r \<leftarrow> lit ''  '' r;
     (dd, r) \<leftarrow> cls is_digit 2 r;
     r \<leftarrow> lit '' '' r;
     (yy, r) \<leftarrow> cls is_digit 4 r;
     r \<leftarrow> lit '' '' r;
     (hh, r) \<leftarrow> cls is_digit 2 r;
     r \<leftarrow> lit '':'' r;
     (mi, r) \<leftarrow> cls is_digit 2 r;
     r \<leftarrow> lit '':'' r;
     (ss, r) \<leftarrow> cls is_digit 2 r;
     if eos r
     then Some \<lparr>c_month = m1 @ m2, c_day = dd, c_year = yy,
                 c_time = hh @ '':'' @ mi @ '':'' @ ss\<rparr>
     else None }"

definition EMPTY_RE :: "string \<Rightarrow> string option" where
  "EMPTY_RE s = do {
     r \<leftarrow> lit ''Log Empty END'' s;
     if eos r then Some ''Log Empty END'' else None }"

definition COUNT_RE :: "string \<Rightarrow> string option" where
  "COUNT_RE s = do {
     (n, r) \<leftarrow> cls is_digit 3 s;
     if eos r then Some n else None }"

record reading_match =
  g_reading :: string
  g_month :: string
  g_day :: string
  g_year :: string
  g_time :: string
  g_type :: string
  g_sentinel :: string

text \<open>
  What follows the reading group in \<^verbatim>\<open>_READING_RE\<close>. The sentinel is \<^verbatim>\<open>0x0\<close> and one
  character of the class \<^verbatim>\<open>[01]\<close>.
\<close>

definition is_01 :: "char \<Rightarrow> bool" where
  "is_01 c = (c = CHR ''0'' \<or> c = CHR ''1'')"

definition READING_RE_tail :: "string \<Rightarrow> string \<Rightarrow> reading_match option" where
  "READING_RE_tail rd s = do {
     r \<leftarrow> lit ''  '' s;
     (m1, r) \<leftarrow> cls is_upper 1 r;
     (m2, r) \<leftarrow> cls is_lower 2 r;
     r \<leftarrow> lit ''  '' r;
     (dd, r) \<leftarrow> cls is_digit 2 r;
     r \<leftarrow> lit '' '' r;
     (yy, r) \<leftarrow> cls is_digit 4 r;
     r \<leftarrow> lit '' '' r;
     (hh, r) \<leftarrow> cls is_digit 2 r;
     r \<leftarrow> lit '':'' r;
     (mi, r) \<leftarrow> cls is_digit 2 r;
     r \<leftarrow> lit '' '' r;
     (ty, r) \<leftarrow> cls is_digit 2 r;
     r \<leftarrow> lit '' '' r;
     r \<leftarrow> lit ''0x0'' r;
     (se, r) \<leftarrow> cls is_01 1 r;
     if eos r
     then Some \<lparr>g_reading = rd, g_month = m1 @ m2, g_day = dd, g_year = yy,
                 g_time = hh @ '':'' @ mi, g_type = ty, g_sentinel = ''0x0'' @ se\<rparr>
     else None }"

text \<open>
  The reading group is the alternation \<^verbatim>\<open>|[0-9]{3}\<close>: the empty string is tried first,
  three digits when the rest of the line does not match after it.
\<close>

definition READING_RE :: "string \<Rightarrow> reading_match option" where
  "READING_RE s =
     (case READING_RE_tail [] s of
        Some g \<Rightarrow> Some g
      | None \<Rightarrow> do { (rd, r) \<leftarrow> cls is_digit 3 s; READING_RE_tail rd r })"

definition CHECKSUM_RE :: "string \<Rightarrow> string option" where
  "CHECKSUM_RE s = do {
     r \<leftarrow> lit ''0x'' s;
     (h, r) \<leftarrow> cls is_hex_upper 4 r;
     r \<leftarrow> lit ''  END'' r;
     if eos r then Some (''0x'' @ h) else None }"

definition MONTH_MATCHES :: "string \<rightharpoonup> nat" where
  "MONTH_MATCHES = map_of
     [(''Jan'', 1), (''Feb'', 2), (''Mar'', 3), (''Apr'', 4), (''May'', 5), (''Jun'', 6),
      (''Jul'', 7), (''Aug'', 8), (''Sep'', 9), (''Oct'', 10), (''Nov'', 11), (''Dec'', 12)]"

text \<open>\<^verbatim>\<open>_MONTH_MATCHES[k]\<close> raises \<^verbatim>\<open>KeyError\<close> for a key that is not in the table.\<close>

definition MONTH_MATCHES_item :: "string \<Rightarrow> error + nat" where
  "MONTH_MATCHES_item k =
     (case MONTH_MATCHES k of None \<Rightarrow> Inl (KeyError k) | Some v \<Rightarrow> Inr v)"

definition INFO_SIZE :: nat where
  "INFO_SIZE = 5"

subsection \<open>The parsers\<close>

text \<open>A function applied to the items of a list in turn, up to the first exception.\<close>

fun map_e :: "('a \<Rightarrow> error + 'b) \<Rightarrow> 'a list \<Rightarrow> error + 'b list" where
  "map_e f [] = Inr []"
| "map_e f (x # xs) = bind_e (f x) (\<lambda>y. bind_e (map_e f xs) (\<lambda>ys. Inr (y # ys)))"

text \<open>
  \<^verbatim>\<open>_parse_clock\<close>. Unpacking \<^verbatim>\<open>map(int, time.split(':'))\<close> into three names raises
  \<^verbatim>\<open>ValueError\<close> when the number of parts is not three.
\<close>

definition parse_clock :: "string \<Rightarrow> error + datetime" where
  "parse_clock datestr =
     (case CLOCK_RE datestr of
        None \<Rightarrow> Inl (InvalidResponse datestr)
      | Some match \<Rightarrow>
          bind_e (int_str (c_day match)) (\<lambda>day.
          bind_e (MONTH_MATCHES_item (c_month match)) (\<lambda>month.
          bind_e (int_str (c_year match)) (\<lambda>year.
          bind_e (map_e int_str (split CHR '':'' (c_time match))) (\<lambda>ts.
            case ts of
              [hour, minute, second] \<Rightarrow> datetime_new year month day hour minute second
            | _ \<Rightarrow> Inl ValueError)))))"

definition parse_nrresults :: "string \<Rightarrow> error + nat" where
  "parse_nrresults countstr =
     (let match_empty = EMPTY_RE countstr;
          match_count = COUNT_RE countstr
      in if match_empty \<noteq> None then Inr 0
         else if match_count \<noteq> None then int_str countstr
         else Inl (InvalidResponse countstr))"

datatype glucose_unit = MG_DL | MMOL_L

record info =
  device_version :: string
  software_revision :: string
  device_serialno :: string
  device_glucose_unit :: glucose_unit
  device_current_date_time :: datetime
  device_nrresults :: nat

definition parse_info :: "string list \<Rightarrow> error + info" where
  "parse_info data =
     (if length data < INFO_SIZE then Inl (InvalidResponse (join [LF] data))
      else
        bind_e (item data 0) (\<lambda>line0.
        if line0 \<noteq> [] then Inl (InvalidResponse (join [LF] data))
        else
          bind_e (item data 1) (\<lambda>version.
          bind_e (item data 2) (\<lambda>revision.
          bind_e (bind_e (item data 3) parse_clock) (\<lambda>clock.
          bind_e (bind_e (item data 4) parse_nrresults) (\<lambda>nrresults.
            Inr \<lparr>device_version = version,
                 software_revision = revision,
                 device_serialno = ''N/A'',
                 device_glucose_unit = MG_DL,
                 device_current_date_time = clock,
                 device_nrresults = nrresults\<rparr>))))))"

text \<open>The dictionary that \<^verbatim>\<open>_parse_resline\<close> returns.\<close>

record resline =
  r_value :: py_float
  r_day :: nat
  r_month :: nat
  r_year :: nat
  r_hour :: nat
  r_minute :: nat
  r_timestamp :: datetime
  r_READING :: string
  r_TYPE :: string
  r_SENTINEL :: string

text \<open>
  \<^verbatim>\<open>_parse_resline\<close> returns the warnings it logged and its result. The warning on the
  type code is logged before anything that can raise after the match. The local variable
  \<^verbatim>\<open>TYPE\<close> is \<open>TYPE'\<close> here.
\<close>

definition parse_resline :: "string \<Rightarrow> nat \<Rightarrow> string list \<times> (error + resline)" where
  "parse_resline line j =
     (case READING_RE line of
        None \<Rightarrow> ([], Inl (InvalidResponse (''error line '' @ str_nat j @ '' = '' @ line)))
      | Some match \<Rightarrow>
          let READING = g_reading match;
              MONTH = g_month match;
              DAY = g_day match;
              YEAR = g_year match;
              TIME = g_time match;
              TYPE' = g_type match;
              SENTINEL = g_sentinel match;
              warnings = (if TYPE' \<noteq> ''00''
                          then [''TYPE == '' @ TYPE' @ ''  NORMALLY type == 00'']
                          else [])
          in (warnings,
              bind_e (if READING = ''HI '' then Inr PosInf else float_str READING) (\<lambda>val.
              bind_e (MONTH_MATCHES_item MONTH) (\<lambda>month.
              bind_e (int_str DAY) (\<lambda>day.
              bind_e (int_str YEAR) (\<lambda>year.
              bind_e (map_e int_str (split CHR '':'' TIME)) (\<lambda>ts.
                case ts of
                  [hour, minute] \<Rightarrow>
                    bind_e (datetime_new year month day hour minute 0) (\<lambda>timestamp.
                      Inr \<lparr>r_value = val, r_day = day, r_month = month, r_year = year,
                           r_hour = hour, r_minute = minute, r_timestamp = timestamp,
                           r_READING = READING, r_TYPE = TYPE', r_SENTINEL = SENTINEL\<rparr>)
                | _ \<Rightarrow> Inl ValueError)))))))"

text \<open>
  \<^verbatim>\<open>_parse_checksum\<close>. On a line that does not match, the message is the join of the
  characters of the line (\<^verbatim>\<open>'\n'.join(line)\<close> on a string).
\<close>

definition parse_checksum :: "string \<Rightarrow> error + nat" where
  "parse_checksum line =
     (case CHECKSUM_RE line of
        None \<Rightarrow> Inl (InvalidResponse (join [LF] (map (\<lambda>c. [c]) line)))
      | Some checksum_str \<Rightarrow> int_str16 checksum_str)"

text \<open>
  The list comprehension of \<^verbatim>\<open>_parse_result\<close> over the indices \<open>js\<close>: the lines are
  parsed in order, and the first exception ends it.
\<close>

fun parse_reslines :: "string list \<Rightarrow> nat list \<Rightarrow> string list \<times> (error + resline list)" where
  "parse_reslines data [] = ([], Inr [])"
| "parse_reslines data (j # js) =
     (case item data j of
        Inl e \<Rightarrow> ([], Inl e)
      | Inr line \<Rightarrow>
          (case parse_resline line j of
             (w, Inl e) \<Rightarrow> (w, Inl e)
           | (w, Inr r) \<Rightarrow>
               (case parse_reslines data js of
                  (w', Inl e) \<Rightarrow> (w @ w', Inl e)
                | (w', Inr rs) \<Rightarrow> (w @ w', Inr (r # rs)))))"

record parsed =
  p_info :: info
  p_reslog :: "resline list"
  p_checksum :: nat

text \<open>
  \<^verbatim>\<open>_parse_result\<close>. The local variable \<^verbatim>\<open>checksum\<close> is assigned only when \<open>n > 0\<close>; the
  \<^verbatim>\<open>return\<close> reads it on every path, and reading a local variable that was never
  assigned raises \<^verbatim>\<open>UnboundLocalError\<close>. The line \<^verbatim>\<open>data[_INFO_SIZE]\<close> is read
  before the number of lines is compared with the expected one.
\<close>

definition parse_result :: "string list \<Rightarrow> string list \<times> (error + parsed)" where
  "parse_result data =
     (case parse_info data of
        Inl e \<Rightarrow> ([], Inl e)
      | Inr info \<Rightarrow>
          let n = device_nrresults info
          in case (if n = 0 then Inr INFO_SIZE
                   else bind_e (item data INFO_SIZE) (\<lambda>line5.
                          if line5 \<noteq> [] then Inl (InvalidResponse (join [LF] data))
                          else Inr (INFO_SIZE + n + 2)))
             of Inl e \<Rightarrow> ([], Inl e)
              | Inr len_data1 \<Rightarrow>
                  if length data \<noteq> len_data1
                  then ([], Inl (InvalidResponse (join [LF] data)))
                  else
                    let j1 = INFO_SIZE + 1;
                        j2 = INFO_SIZE + 1 + n
                    in case parse_reslines data [j1..<j2] of
                         (w, Inl e) \<Rightarrow> (w, Inl e)
                       | (w, Inr reslog) \<Rightarrow>
                           (case (if n > 0
                                  then bind_e (bind_e (item data j2) parse_checksum)
                                         (\<lambda>c. Inr (Some c))
                                  else Inr None)
                            of Inl e \<Rightarrow> (w, Inl e)
                             | Inr None \<Rightarrow> (w, Inl (UnboundLocalError ''checksum''))
                             | Inr (Some checksum) \<Rightarrow>
                                 (w, Inr \<lparr>p_info = info, p_reslog = reslog,
                                         p_checksum = checksum\<rparr>)))"

subsection \<open>The device\<close>

text \<open>
  The attributes that \<^verbatim>\<open>_fetch_device_information\<close> sets on the device. The lines
  \<open>data\<close> are what \<^verbatim>\<open>_send_command('mem')\<close> returned: the serial port is outside the
  model. The attributes set before an exception are not returned.
\<close>

record device =
  self_info :: info
  self_device_results :: "resline list"
  self_device_checksum :: nat
  self_device_version :: string
  self_software_revision :: string
  self_device_serialno :: string
  self_device_glucose_unit :: glucose_unit
  self_device_current_date_time :: datetime
  self_device_nrresults :: nat



text \<open>\<^verbatim>\<open>get_readings\<close> yields a timestamp and a value for each stored reading.\<close>

definition get_readings :: "device \<Rightarrow> (datetime \<times> py_float) list" where
  "get_readings self = map (\<lambda>line. (r_timestamp line, r_value line)) (self_device_results self)"

subsection \<open>Reading lines built from their fields\<close>

text \<open>
  The layout of \<^verbatim>\<open>_READING_RE\<close> read as a printer: \<open>reading_line\<close> is the line that
  carries given fields, and \<open>reading_fields_ok\<close> is what the expression asks of each
  field (the reading group empty or three digits, the month a capital and two small
  letters, and so on).
\<close>

definition reading_line :: "reading_match \<Rightarrow> string" where
  "reading_line g =
     g_reading g @ ''  '' @ g_month g @ ''  '' @ g_day g @ '' '' @ g_year g @ '' '' @
     g_time g @ '' '' @ g_type g @ '' '' @ g_sentinel g"

definition reading_fields_ok :: "reading_match \<Rightarrow> bool" where
  "reading_fields_ok g =
     ((g_reading g = [] \<or> (length (g_reading g) = 3 \<and> list_all is_digit (g_reading g))) \<and>
      length (g_month g) = 3 \<and> is_upper (g_month g ! 0) \<and>
      is_lower (g_month g ! 1) \<and> is_lower (g_month g ! 2) \<and>
      length (g_day g) = 2 \<and> list_all is_digit (g_day g) \<and>
      length (g_year g) = 4 \<and> list_all is_digit (g_year g) \<and>
      length (g_time g) = 5 \<and> list_all is_digit (take 2 (g_time g)) \<and>
      g_time g ! 2 = CHR '':'' \<and> list_all is_digit (drop 3 (g_time g)) \<and>
      length (g_type g) = 2 \<and> list_all is_digit (g_type g) \<and>
      (g_sentinel g = ''0x00'' \<or> g_sentinel g = ''0x01''))"

section \<open>Properties\<close>

subsection \<open>Basic facts\<close>

lemma bind_e_simps [simp]:
  "bind_e (Inl e) f = Inl e"
  "bind_e (Inr x) f = f x"
  by (simp_all add: bind_e_def)

lemma lit_Some: "lit l s = Some r \<longleftrightarrow> s = l @ r"
proof
  assume "lit l s = Some r"
  then have "take (length l) s = l" "drop (length l) s = r"
    by (simp_all add: lit_def split: if_splits)
  then show "s = l @ r"
    using append_take_drop_id [of "length l" s] by simp
next
  assume "s = l @ r"
  then show "lit l s = Some r" by (simp add: lit_def)
qed

lemma lit_append [simp]: "lit l (l @ r) = Some r"
  by (simp add: lit_Some)

lemma cls_Some: "cls p n s = Some (a, r) \<longleftrightarrow> s = a @ r \<and> length a = n \<and> list_all p a"
  by (auto simp: cls_def)

lemma cls_append: "length xs = n \<Longrightarrow> list_all p xs \<Longrightarrow> cls p n (xs @ r) = Some (xs, r)"
  by (simp add: cls_Some)

lemma digit_not_space: "is_digit c \<Longrightarrow> \<not> is_space c"
  by (auto simp: is_digit_def is_space_def)

lemma LF_space: "is_space LF"
  by (simp add: is_space_def LF_def ord_def)

lemma LF_not_digit: "\<not> is_digit LF"
  by (simp add: is_digit_def LF_def ord_def)

lemma strip_digits_space:
  assumes "s \<noteq> []" and "list_all is_digit s" and "list_all is_space t"
  shows "strip (s @ t) = s"
proof -
  from assms(1) obtain c cs where s: "s = c # cs" by (cases s) auto
  with assms(2) have "\<not> is_space c" by (simp add: digit_not_space)
  with s have front: "dropWhile is_space (s @ t) = s @ t" by simp
  from assms(1) obtain d ds where r: "rev s = d # ds" by (cases "rev s") auto
  then have "d \<in> set s" by (metis list.set_intros(1) set_rev)
  with assms(2) have "\<not> is_space d" by (auto simp: list_all_iff digit_not_space)
  with r have "dropWhile is_space (rev s) = rev s" by simp
  moreover have "dropWhile is_space (rev t @ rev s) = dropWhile is_space (rev s)"
    using assms(3) by (intro dropWhile_append2) (simp add: list_all_iff)
  ultimately show ?thesis by (simp add: strip_def front)
qed

lemma strip_digits: "s \<noteq> [] \<Longrightarrow> list_all is_digit s \<Longrightarrow> strip s = s"
  using strip_digits_space [of s "[]"] by simp

lemma int_str_digits: "s \<noteq> [] \<Longrightarrow> list_all is_digit s \<Longrightarrow> int_str s = Inr (digits_val 10 s)"
  by (simp add: int_str_def strip_digits)

lemma float_str_digits:
  "s \<noteq> [] \<Longrightarrow> list_all is_digit s \<Longrightarrow> float_str s = Inr (Finite (digits_val 10 s))"
  by (simp add: float_str_def strip_digits)

lemma float_str_empty: "float_str [] = Inl ValueError"
  by (simp add: float_str_def strip_def)

lemma CLOCK_RE_Some:
  assumes "CLOCK_RE line = Some m"
  shows "length (c_day m) = 2 \<and> list_all is_digit (c_day m)"
  using assms
  by (auto simp: CLOCK_RE_def bind_eq_Some_conv cls_Some lit_Some split: if_splits)

lemma READING_RE_tail_Some:
  assumes "READING_RE_tail rd s = Some g"
  shows "g_reading g = rd"
  using assms
  by (auto simp: READING_RE_tail_def bind_eq_Some_conv cls_Some lit_Some split: if_splits)

lemma READING_RE_Some:
  assumes "READING_RE line = Some g"
  shows "g_reading g = [] \<or> (length (g_reading g) = 3 \<and> list_all is_digit (g_reading g))"
  using assms
  by (auto simp: READING_RE_def bind_eq_Some_conv cls_Some dest: READING_RE_tail_Some
           split: option.splits)

lemma parse_reslines_Inr:
  "parse_reslines data js = (w, Inr rs) \<Longrightarrow>
     length rs = length js \<and>
     (\<forall>i<length js. js ! i < length data \<and>
        snd (parse_resline (data ! (js ! i)) (js ! i)) = Inr (rs ! i))"
proof (induction js arbitrary: w rs)
  case Nil
  then show ?case by simp
next
  case (Cons j js)
  from Cons.prems obtain w1 r w2 rs' where
    j: "j < length data" and
    r: "parse_resline (data ! j) j = (w1, Inr r)" and
    rest: "parse_reslines data js = (w2, Inr rs')" and
    rs: "rs = r # rs'"
    by (auto simp: item_def split: if_splits prod.splits sum.splits)
  from Cons.IH [OF rest] have ih: "length rs' = length js"
    "\<forall>i<length js. js ! i < length data \<and>
        snd (parse_resline (data ! (js ! i)) (js ! i)) = Inr (rs' ! i)"
    by simp_all
  show ?case
  proof (intro conjI allI impI)
    show "length rs = length (j # js)" using ih rs by simp
  next
    fix i assume "i < length (j # js)"
    then show "(j # js) ! i < length data" using j ih by (cases i) auto
  next
    fix i assume "i < length (j # js)"
    then show "snd (parse_resline (data ! ((j # js) ! i)) ((j # js) ! i)) = Inr (rs ! i)"
      using r rs ih by (cases i) auto
  qed
qed

lemma length_2_conv: "length xs = 2 \<longleftrightarrow> (\<exists>a b. xs = [a, b])"
  by (auto simp: length_Suc_conv eval_nat_numeral)

lemma length_3_conv: "length xs = 3 \<longleftrightarrow> (\<exists>a b c. xs = [a, b, c])"
  by (auto simp: length_Suc_conv eval_nat_numeral)

lemma length_4_conv: "length xs = 4 \<longleftrightarrow> (\<exists>a b c d. xs = [a, b, c, d])"
  by (auto simp: length_Suc_conv eval_nat_numeral)

lemma length_5_conv: "length xs = 5 \<longleftrightarrow> (\<exists>a b c d e. xs = [a, b, c, d, e])"
  by (auto simp: length_Suc_conv eval_nat_numeral)

lemma digit_neq_blank: "is_digit c \<Longrightarrow> c \<noteq> CHR '' ''"
  by (auto simp: is_digit_def ord_def)

lemma READING_RE_tail_line:
  assumes "is_upper a" "is_lower b" "is_lower c"
    and "list_all is_digit [d1, d2]" and "list_all is_digit [y1, y2, y3, y4]"
    and "list_all is_digit [h1, h2]" and "list_all is_digit [n1, n2]"
    and "list_all is_digit [t1, t2]" and "is_01 s"
  shows "READING_RE_tail rd (''  '' @ [a, b, c] @ ''  '' @ [d1, d2] @ '' '' @ [y1, y2, y3, y4] @ '' '' @
           [h1, h2, CHR '':'', n1, n2] @ '' '' @ [t1, t2] @ '' '' @ [CHR ''0'', CHR ''x'', CHR ''0'', s])
         = Some \<lparr>g_reading = rd, g_month = [a, b, c], g_day = [d1, d2],
                  g_year = [y1, y2, y3, y4], g_time = [h1, h2, CHR '':'', n1, n2],
                  g_type = [t1, t2], g_sentinel = [CHR ''0'', CHR ''x'', CHR ''0'', s]\<rparr>"
  using assms
  by (simp add: READING_RE_tail_def lit_def cls_def eos_def)

lemma READING_RE_reading_line:
  assumes "reading_fields_ok g"
  shows "READING_RE (reading_line g) = Some g"
proof -
  obtain rd mon dd yy tm ty se where g:
    "g = \<lparr>g_reading = rd, g_month = mon, g_day = dd, g_year = yy, g_time = tm,
          g_type = ty, g_sentinel = se\<rparr>"
    by (cases g) auto
  from assms g obtain a b c where mon: "mon = [a, b, c]" "is_upper a" "is_lower b" "is_lower c"
    by (auto simp: reading_fields_ok_def length_3_conv)
  from assms g obtain d1 d2 where dd: "dd = [d1, d2]" "list_all is_digit [d1, d2]"
    by (auto simp: reading_fields_ok_def length_2_conv)
  from assms g obtain y1 y2 y3 y4 where yy: "yy = [y1, y2, y3, y4]" "list_all is_digit [y1, y2, y3, y4]"
    by (auto simp: reading_fields_ok_def length_4_conv)
  from assms g obtain h1 h2 n1 n2 where tm: "tm = [h1, h2, CHR '':'', n1, n2]"
    "list_all is_digit [h1, h2]" "list_all is_digit [n1, n2]"
    by (auto simp: reading_fields_ok_def length_5_conv)
  from assms g obtain t1 t2 where ty: "ty = [t1, t2]" "list_all is_digit [t1, t2]"
    by (auto simp: reading_fields_ok_def length_2_conv)
  from assms g obtain s where se: "se = [CHR ''0'', CHR ''x'', CHR ''0'', s]" "is_01 s"
    by (auto simp: reading_fields_ok_def is_01_def)
  note tail = READING_RE_tail_line [OF mon(2-4) dd(2) yy(2) tm(2,3) ty(2) se(2)]
  from assms g have "rd = [] \<or> (length rd = 3 \<and> list_all is_digit rd)"
    by (simp add: reading_fields_ok_def)
  then show ?thesis
  proof
    assume "rd = []"
    then show ?thesis
      using tail [of "[]"] by (simp add: READING_RE_def reading_line_def g mon dd yy tm ty se)
  next
    assume "length rd = 3 \<and> list_all is_digit rd"
    then obtain r1 r2 r3 where rd: "rd = [r1, r2, r3]" "is_digit r1" "list_all is_digit rd"
      by (auto simp: length_3_conv)
    have "READING_RE_tail [] (reading_line g) = None"
      using rd(2) by (simp add: READING_RE_tail_def lit_def reading_line_def g rd(1) digit_neq_blank)
    moreover have "cls is_digit 3 (reading_line g) = Some (rd, drop 3 (reading_line g))"
      using rd by (simp add: cls_def reading_line_def g)
    moreover have "READING_RE_tail rd (drop 3 (reading_line g)) = Some g"
      using tail [of rd] by (simp add: reading_line_def g rd(1) mon dd yy tm ty se)
    ultimately show ?thesis by (simp add: READING_RE_def)
  qed
qed


lemma digits_not_HI: "list_all is_digit rd \<Longrightarrow> rd \<noteq> ''HI ''"
  by (auto simp: is_digit_def ord_def)

subsection \<open>The empty log\<close>

text \<open>
  Claim C1. The five lines of an empty log, \<^verbatim>\<open>""\<close>, \<^verbatim>\<open>"0.22"\<close>, \<^verbatim>\<open>"0.22"\<close>,
  \<^verbatim>\<open>"Jan  01 2017 12:00:00"\<close>, \<^verbatim>\<open>"Log Empty END"\<close>, should parse to the information
  record with version and revision 0.22, the clock 2017-01-01T12:00:00, count 0, serial
  number N/A and unit mg/dL, with no reading and no error. The information block does
  parse to that record, but \<^verbatim>\<open>_parse_result\<close> then raises \<^verbatim>\<open>UnboundLocalError\<close>: its
  \<^verbatim>\<open>return\<close> reads the variable \<^verbatim>\<open>checksum\<close>, which is assigned only when the count is
  positive.
\<close>

theorem parse_result_empty_log:
  "parse_info ['''', ''0.22'', ''0.22'', ''Jan  01 2017 12:00:00'', ''Log Empty END'']
     = Inr \<lparr>device_version = ''0.22'', software_revision = ''0.22'',
            device_serialno = ''N/A'', device_glucose_unit = MG_DL,
            device_current_date_time =
              \<lparr>dt_year = 2017, dt_month = 1, dt_day = 1,
               dt_hour = 12, dt_minute = 0, dt_second = 0\<rparr>,
            device_nrresults = 0\<rparr>
   \<and> parse_result ['''', ''0.22'', ''0.22'', ''Jan  01 2017 12:00:00'', ''Log Empty END'']
     = ([], Inl (UnboundLocalError ''checksum''))"
  by code_simp

subsection \<open>Saturated readings\<close>

text \<open>
  Claim C3. A reading line whose value field is \<^verbatim>\<open>HI \<close> should be accepted and give
  the value positive infinity with the timestamp of the line. \<^verbatim>\<open>_parse_resline\<close> has the
  branch for it, and the comment above \<^verbatim>\<open>_READING_RE\<close> announces it, but the reading group
  of the expression is \<^verbatim>\<open>|[0-9]{3}\<close>, the empty string or three digits: no line that starts
  with \<^verbatim>\<open>HI \<close> matches, whatever follows, and the parser raises \<^verbatim>\<open>InvalidResponse\<close>.
\<close>

theorem parse_resline_HI_rejected:
  "parse_resline (''HI '' @ rest) j
     = ([], Inl (InvalidResponse (''error line '' @ str_nat j @ '' = '' @ ''HI '' @ rest)))"
  by (simp add: parse_resline_def READING_RE_def READING_RE_tail_def lit_def cls_def
        is_digit_def ord_def)

subsection \<open>The shape of the response\<close>

text \<open>
  Claim C4. When the information block parses with count \<open>N\<close> and the number of lines
  is wrong for \<open>N\<close>, or line 5 is not empty, the parse should fail with
  \<^verbatim>\<open>InvalidResponse\<close> and nothing else. With five lines and a positive count, here
  \<^verbatim>\<open>001\<close>, the information block parses with \<open>N = 1\<close>, and \<^verbatim>\<open>_parse_result\<close> reads
  \<^verbatim>\<open>data[5]\<close> before it compares the number of lines: the failure is an \<^verbatim>\<open>IndexError\<close>.
\<close>

theorem parse_result_short_response:
  "parse_info ['''', ''0.22'', ''0.22'', ''Jan  01 2017 12:00:00'', ''001'']
     = Inr \<lparr>device_version = ''0.22'', software_revision = ''0.22'',
            device_serialno = ''N/A'', device_glucose_unit = MG_DL,
            device_current_date_time =
              \<lparr>dt_year = 2017, dt_month = 1, dt_day = 1,
               dt_hour = 12, dt_minute = 0, dt_second = 0\<rparr>,
            device_nrresults = 1\<rparr>
   \<and> parse_result ['''', ''0.22'', ''0.22'', ''Jan  01 2017 12:00:00'', ''001'']
     = ([], Inl IndexError)"
  by code_simp

subsection \<open>Long month names\<close>

text \<open>
  Claim C6. A reading line with the four-letter spelling of a month (June, July) should
  be accepted like the line with the three-letter abbreviation, with the same month
  number. The comments of the source say so, but \<^verbatim>\<open>_READING_RE\<close> wants two spaces right
  after the three letters of the month: the abbreviation is accepted (June is month 6,
  July month 7), and the long spelling is rejected with \<^verbatim>\<open>InvalidResponse\<close>, whether one
  space or two follow it.
\<close>

theorem parse_resline_long_month_rejected:
  "snd (parse_resline ''100  Jun  01 2017 12:00 00 0x00'' 6)
     = Inr \<lparr>r_value = Finite 100, r_day = 1, r_month = 6, r_year = 2017, r_hour = 12,
            r_minute = 0,
            r_timestamp = \<lparr>dt_year = 2017, dt_month = 6, dt_day = 1,
                           dt_hour = 12, dt_minute = 0, dt_second = 0\<rparr>,
            r_READING = ''100'', r_TYPE = ''00'', r_SENTINEL = ''0x00''\<rparr>
   \<and> snd (parse_resline ''100  June  01 2017 12:00 00 0x00'' 6)
     = Inl (InvalidResponse ''error line 6 = 100  June  01 2017 12:00 00 0x00'')
   \<and> snd (parse_resline ''100  June 01 2017 12:00 00 0x00'' 6)
     = Inl (InvalidResponse ''error line 6 = 100  June 01 2017 12:00 00 0x00'')
   \<and> map_sum id r_month (snd (parse_resline ''100  Jul  01 2017 12:00 00 0x00'' 6)) = Inr 7
   \<and> snd (parse_resline ''100  July 01 2017 12:00 00 0x00'' 6)
     = Inl (InvalidResponse ''error line 6 = 100  July 01 2017 12:00 00 0x00'')"
  by code_simp

subsection \<open>The empty reading field\<close>

text \<open>
  Claim C10. The reading group of \<^verbatim>\<open>_READING_RE\<close> also accepts the empty string: a line
  that begins with two spaces, followed by well-formed month, day, year, time, type code
  and sentinel, matches the expression, and \<^verbatim>\<open>_parse_resline\<close> then fails with the
  \<^verbatim>\<open>ValueError\<close> of \<^verbatim>\<open>float('')\<close>, not with \<^verbatim>\<open>InvalidResponse\<close>.
\<close>

theorem empty_reading_ValueError:
  assumes "reading_fields_ok g" and "g_reading g = []"
  shows "READING_RE (reading_line g) = Some g \<and> take 2 (reading_line g) = ''  '' \<and>
         snd (parse_resline (reading_line g) j) = Inl ValueError"
proof -
  have m: "READING_RE (reading_line g) = Some g"
    using assms(1) by (rule READING_RE_reading_line)
  have "snd (parse_resline (reading_line g) j) = Inl ValueError"
    by (simp add: parse_resline_def m Let_def assms(2) float_str_empty)
  moreover have "take 2 (reading_line g) = ''  ''"
    by (simp add: reading_line_def assms(2))
  ultimately show ?thesis using m by simp
qed

theorem empty_reading_ValueError_witness:
  "reading_fields_ok \<lparr>g_reading = [], g_month = ''Jan'', g_day = ''01'', g_year = ''2017'',
     g_time = ''12:00'', g_type = ''00'', g_sentinel = ''0x00''\<rparr>
   \<and> READING_RE ''  Jan  01 2017 12:00 00 0x00''
        = Some \<lparr>g_reading = [], g_month = ''Jan'', g_day = ''01'', g_year = ''2017'',
            g_time = ''12:00'', g_type = ''00'', g_sentinel = ''0x00''\<rparr>
   \<and> snd (parse_resline ''  Jan  01 2017 12:00 00 0x00'' 6) = Inl ValueError"
proof -
  let ?g = "\<lparr>g_reading = [], g_month = ''Jan'', g_day = ''01'', g_year = ''2017'',
     g_time = ''12:00'', g_type = ''00'', g_sentinel = ''0x00''\<rparr>"
  have ok: "reading_fields_ok ?g"
    by (simp add: reading_fields_ok_def is_digit_def is_upper_def is_lower_def ord_def)
  have e: "g_reading ?g = []" by simp
  from empty_reading_ValueError [OF ok e, of 6] show ?thesis
    using ok by (simp add: reading_line_def)
qed

subsection \<open>Type codes other than 00\<close>

lemma reading_fields_ok_retype:
  "reading_fields_ok g \<Longrightarrow> reading_fields_ok (g\<lparr>g_type := ''00''\<rparr>)"
  by (simp add: reading_fields_ok_def is_digit_def ord_def)

lemma parse_resline_type_code:
  assumes "reading_fields_ok g"
  shows "parse_resline (reading_line g) j =
           ((if g_type g \<noteq> ''00'' then [''TYPE == '' @ g_type g @ ''  NORMALLY type == 00'']
             else []),
            map_sum id (\<lambda>r. r\<lparr>r_TYPE := g_type g\<rparr>)
              (snd (parse_resline (reading_line (g\<lparr>g_type := ''00''\<rparr>)) j)))"
proof -
  have m: "READING_RE (reading_line g) = Some g"
    using assms by (rule READING_RE_reading_line)
  have m0: "READING_RE (reading_line (g\<lparr>g_type := ''00''\<rparr>)) = Some (g\<lparr>g_type := ''00''\<rparr>)"
    using assms by (intro READING_RE_reading_line reading_fields_ok_retype)
  show ?thesis
    by (simp add: parse_resline_def m m0 Let_def bind_e_def split: sum.split list.split)
qed

text \<open>
  Claim C9. A reading line that matches the grammar with a type code other than
  \<^verbatim>\<open>00\<close> should give a record with the value and timestamp of the line with the code
  \<^verbatim>\<open>00\<close>, with a warning and no error, and the parse should go on with the remaining
  lines. That holds whenever the line with \<^verbatim>\<open>00\<close> gives a record: the line then gives
  the same record but for the stored code, one warning is logged when the code is not
  \<^verbatim>\<open>00\<close>, and the list comprehension of \<^verbatim>\<open>_parse_result\<close> puts the record before
  whatever the remaining lines give. A line that matches the grammar does not always give
  a record (the 30th of February matches), so the claim fails as it stands.
\<close>

theorem type_code_not_fatal:
  assumes "reading_fields_ok g"
    and "snd (parse_resline (reading_line (g\<lparr>g_type := ''00''\<rparr>)) j) = Inr r"
  shows "parse_resline (reading_line g) j =
           ((if g_type g \<noteq> ''00'' then [''TYPE == '' @ g_type g @ ''  NORMALLY type == 00'']
             else []),
            Inr (r\<lparr>r_TYPE := g_type g\<rparr>))
       \<and> r_value (r\<lparr>r_TYPE := g_type g\<rparr>) = r_value r
       \<and> r_timestamp (r\<lparr>r_TYPE := g_type g\<rparr>) = r_timestamp r
       \<and> (item data j = Inr (reading_line g) \<longrightarrow>
            parse_reslines data (j # js) =
              ((if g_type g \<noteq> ''00''
                then [''TYPE == '' @ g_type g @ ''  NORMALLY type == 00''] else [])
                 @ fst (parse_reslines data js),
               map_sum id (\<lambda>rs. r\<lparr>r_TYPE := g_type g\<rparr> # rs)
                 (snd (parse_reslines data js))))"
proof -
  have line: "parse_resline (reading_line g) j =
           ((if g_type g \<noteq> ''00'' then [''TYPE == '' @ g_type g @ ''  NORMALLY type == 00'']
             else []),
            Inr (r\<lparr>r_TYPE := g_type g\<rparr>))"
    by (simp add: parse_resline_type_code [OF assms(1)] assms(2))
  have "parse_reslines data (j # js) =
              ((if g_type g \<noteq> ''00''
                then [''TYPE == '' @ g_type g @ ''  NORMALLY type == 00''] else [])
                 @ fst (parse_reslines data js),
               map_sum id (\<lambda>rs. r\<lparr>r_TYPE := g_type g\<rparr> # rs)
                 (snd (parse_reslines data js)))"
    if i: "item data j = Inr (reading_line g)"
  proof -
    obtain w' rest where rest: "parse_reslines data js = (w', rest)"
      by (cases "parse_reslines data js")
    show ?thesis
      by (cases rest) (simp_all add: i line rest)
  qed
  with line show ?thesis by simp
qed

theorem type_code_not_fatal_witness:
  "reading_fields_ok \<lparr>g_reading = ''100'', g_month = ''Jun'', g_day = ''01'', g_year = ''2017'',
     g_time = ''12:00'', g_type = ''07'', g_sentinel = ''0x01''\<rparr>
   \<and> snd (parse_resline ''100  Jun  01 2017 12:00 00 0x01'' 6)
       = Inr \<lparr>r_value = Finite 100, r_day = 1, r_month = 6, r_year = 2017, r_hour = 12,
            r_minute = 0,
            r_timestamp = \<lparr>dt_year = 2017, dt_month = 6, dt_day = 1,
                           dt_hour = 12, dt_minute = 0, dt_second = 0\<rparr>,
            r_READING = ''100'', r_TYPE = ''00'', r_SENTINEL = ''0x01''\<rparr>
   \<and> item ['''', ''0.22'', ''0.22'', ''Jan  01 2017 12:00:00'', ''002'', '''',
            ''100  Jun  01 2017 12:00 07 0x01'', ''087  Dec  31 2016 23:59 00 0x00'',
            ''0x13BE  END''] 6
       = Inr ''100  Jun  01 2017 12:00 07 0x01''
   \<and> parse_resline ''100  Jun  01 2017 12:00 07 0x01'' 6 =
       ([''TYPE == 07  NORMALLY type == 00''],
        Inr \<lparr>r_value = Finite 100, r_day = 1, r_month = 6, r_year = 2017, r_hour = 12,
            r_minute = 0,
            r_timestamp = \<lparr>dt_year = 2017, dt_month = 6, dt_day = 1,
                           dt_hour = 12, dt_minute = 0, dt_second = 0\<rparr>,
            r_READING = ''100'', r_TYPE = ''07'', r_SENTINEL = ''0x01''\<rparr>)
   \<and> parse_reslines ['''', ''0.22'', ''0.22'', ''Jan  01 2017 12:00:00'', ''002'', '''',
            ''100  Jun  01 2017 12:00 07 0x01'', ''087  Dec  31 2016 23:59 00 0x00'',
            ''0x13BE  END''] [6, 7] =
       ([''TYPE == 07  NORMALLY type == 00''],
        Inr [\<lparr>r_value = Finite 100, r_day = 1, r_month = 6, r_year = 2017, r_hour = 12,
              r_minute = 0,
              r_timestamp = \<lparr>dt_year = 2017, dt_month = 6, dt_day = 1,
                             dt_hour = 12, dt_minute = 0, dt_second = 0\<rparr>,
              r_READING = ''100'', r_TYPE = ''07'', r_SENTINEL = ''0x01''\<rparr>,
             \<lparr>r_value = Finite 87, r_day = 31, r_month = 12, r_year = 2016, r_hour = 23,
              r_minute = 59,
              r_timestamp = \<lparr>dt_year = 2016, dt_month = 12, dt_day = 31,
                             dt_hour = 23, dt_minute = 59, dt_second = 0\<rparr>,
              r_READING = ''087'', r_TYPE = ''00'', r_SENTINEL = ''0x00''\<rparr>])"
proof -
  let ?g = "\<lparr>g_reading = ''100'', g_month = ''Jun'', g_day = ''01'', g_year = ''2017'',
     g_time = ''12:00'', g_type = ''07'', g_sentinel = ''0x01''\<rparr>"
  let ?r = "\<lparr>r_value = Finite 100, r_day = 1, r_month = 6, r_year = 2017, r_hour = 12,
            r_minute = 0,
            r_timestamp = \<lparr>dt_year = 2017, dt_month = 6, dt_day = 1,
                           dt_hour = 12, dt_minute = 0, dt_second = 0\<rparr>,
            r_READING = ''100'', r_TYPE = ''00'', r_SENTINEL = ''0x01''\<rparr>"
  let ?data = "['''', ''0.22'', ''0.22'', ''Jan  01 2017 12:00:00'', ''002'', '''',
            ''100  Jun  01 2017 12:00 07 0x01'', ''087  Dec  31 2016 23:59 00 0x00'',
            ''0x13BE  END'']"
  have ok: "reading_fields_ok ?g"
    by (simp add: reading_fields_ok_def is_digit_def is_upper_def is_lower_def ord_def)
  have v: "snd (parse_resline ''100  Jun  01 2017 12:00 00 0x01'' 6) = Inr ?r"
    by code_simp
  then have v': "snd (parse_resline (reading_line (?g\<lparr>g_type := ''00''\<rparr>)) 6) = Inr ?r"
    by (simp add: reading_line_def)
  have it: "item ?data 6 = Inr (reading_line ?g)"
    by (simp add: item_def reading_line_def)
  have rest: "parse_reslines ?data [7] =
       ([], Inr [\<lparr>r_value = Finite 87, r_day = 31, r_month = 12, r_year = 2016, r_hour = 23,
              r_minute = 59,
              r_timestamp = \<lparr>dt_year = 2016, dt_month = 12, dt_day = 31,
                             dt_hour = 23, dt_minute = 59, dt_second = 0\<rparr>,
              r_READING = ''087'', r_TYPE = ''00'', r_SENTINEL = ''0x00''\<rparr>])"
    by code_simp
  from type_code_not_fatal [OF ok v', of ?data "[7]"] it
  have "parse_resline (reading_line ?g) 6 =
          ([''TYPE == 07  NORMALLY type == 00''], Inr (?r\<lparr>r_TYPE := ''07''\<rparr>))"
    and "parse_reslines ?data [6, 7] =
          ([''TYPE == 07  NORMALLY type == 00''] @ fst (parse_reslines ?data [7]),
           map_sum id (\<lambda>rs. ?r\<lparr>r_TYPE := ''07''\<rparr> # rs) (snd (parse_reslines ?data [7])))"
    by (simp_all del: parse_reslines.simps)
  then show ?thesis
    using ok v it rest by (simp add: reading_line_def del: parse_reslines.simps)
qed

theorem type_code_counterexample:
  "READING_RE ''100  Feb  30 2017 12:00 07 0x00''
     = Some \<lparr>g_reading = ''100'', g_month = ''Feb'', g_day = ''30'', g_year = ''2017'',
              g_time = ''12:00'', g_type = ''07'', g_sentinel = ''0x00''\<rparr>
   \<and> parse_resline ''100  Feb  30 2017 12:00 07 0x00'' 6
     = ([''TYPE == 07  NORMALLY type == 00''], Inl ValueError)"
  by code_simp

subsection \<open>Month tokens outside the table\<close>

text \<open>
  Both parsers index \<^verbatim>\<open>_MONTH_MATCHES\<close> with the month group of the match. A clock line
  that matches with a month outside the table raises \<^verbatim>\<open>KeyError\<close> with the token, and
  so does a reading line that matches with three digits (with an empty reading group
  \<^verbatim>\<open>float\<close> raises first).
\<close>

lemma unknown_month_KeyError:
  "(CLOCK_RE datestr = Some m \<longrightarrow> MONTH_MATCHES (c_month m) = None \<longrightarrow>
      parse_clock datestr = Inl (KeyError (c_month m)))
   \<and> (READING_RE line = Some g \<longrightarrow> MONTH_MATCHES (g_month g) = None \<longrightarrow>
      snd (parse_resline line j) =
        Inl (if g_reading g = [] then ValueError else KeyError (g_month g)))"
proof (intro conjI impI)
  assume m: "CLOCK_RE datestr = Some m" and k: "MONTH_MATCHES (c_month m) = None"
  from CLOCK_RE_Some [OF m] have "int_str (c_day m) = Inr (digits_val 10 (c_day m))"
    by (intro int_str_digits) auto
  then show "parse_clock datestr = Inl (KeyError (c_month m))"
    by (simp add: parse_clock_def m MONTH_MATCHES_item_def k)
next
  assume g: "READING_RE line = Some g" and k: "MONTH_MATCHES (g_month g) = None"
  from READING_RE_Some [OF g]
  show "snd (parse_resline line j) =
        Inl (if g_reading g = [] then ValueError else KeyError (g_month g))"
  proof
    assume "g_reading g = []"
    then show ?thesis
      by (simp add: parse_resline_def g Let_def float_str_empty)
  next
    assume d: "length (g_reading g) = 3 \<and> list_all is_digit (g_reading g)"
    then have "g_reading g \<noteq> []" "g_reading g \<noteq> ''HI ''"
      by (auto simp: digits_not_HI)
    moreover from d this(1) have "float_str (g_reading g) = Inr (Finite (digits_val 10 (g_reading g)))"
      by (intro float_str_digits) auto
    ultimately show ?thesis
      by (simp add: parse_resline_def g Let_def MONTH_MATCHES_item_def k)
  qed
qed

lemma unknown_month_KeyError_example:
  "CLOCK_RE ''Xyz  01 2017 12:00:00''
     = Some \<lparr>c_month = ''Xyz'', c_day = ''01'', c_year = ''2017'', c_time = ''12:00:00''\<rparr>
   \<and> READING_RE ''100  Xyz  01 2017 12:00 00 0x00''
     = Some \<lparr>g_reading = ''100'', g_month = ''Xyz'', g_day = ''01'', g_year = ''2017'',
              g_time = ''12:00'', g_type = ''00'', g_sentinel = ''0x00''\<rparr>
   \<and> MONTH_MATCHES ''Xyz'' = None
   \<and> parse_clock ''Xyz  01 2017 12:00:00'' = Inl (KeyError ''Xyz'')
   \<and> snd (parse_resline ''100  Xyz  01 2017 12:00 00 0x00'' 6) = Inl (KeyError ''Xyz'')"
proof -
  let ?m = "\<lparr>c_month = ''Xyz'', c_day = ''01'', c_year = ''2017'', c_time = ''12:00:00''\<rparr>"
  let ?g = "\<lparr>g_reading = ''100'', g_month = ''Xyz'', g_day = ''01'', g_year = ''2017'',
              g_time = ''12:00'', g_type = ''00'', g_sentinel = ''0x00''\<rparr>"
  have c: "CLOCK_RE ''Xyz  01 2017 12:00:00'' = Some ?m"
    by code_simp
  have r: "READING_RE ''100  Xyz  01 2017 12:00 00 0x00'' = Some ?g"
    by code_simp
  have k: "MONTH_MATCHES ''Xyz'' = None"
    by (simp add: MONTH_MATCHES_def)
  from unknown_month_KeyError
         [of "''Xyz  01 2017 12:00:00''" ?m "''100  Xyz  01 2017 12:00 00 0x00''" ?g 6]
  show ?thesis using c r k by simp
qed

text \<open>
  Claim C7. A clock or reading line whose month token has the shape of a month (a
  capital and two small letters) but is not a key of \<^verbatim>\<open>_MONTH_MATCHES\<close> should raise
  \<^verbatim>\<open>InvalidResponse\<close>, as a line with a token of another shape does. The source
  indexes the dictionary with no check and catches nothing: the clock line and the
  reading line with the token \<^verbatim>\<open>Xyz\<close> raise \<^verbatim>\<open>KeyError\<close>.
\<close>

theorem unknown_month_raises_KeyError:
  "parse_clock ''Xyz  01 2017 12:00:00'' = Inl (KeyError ''Xyz'')
   \<and> snd (parse_resline ''100  Xyz  01 2017 12:00 00 0x00'' 6) = Inl (KeyError ''Xyz'')"
  by code_simp

subsection \<open>The result count\<close>







subsection \<open>Accepted responses\<close>

text \<open>What \<^verbatim>\<open>_parse_result\<close> has checked and computed when it returns.\<close>

lemma parse_result_Inr:
  assumes "parse_result data = (w, Inr res)"
  shows "parse_info data = Inr (p_info res)"
    and "0 < device_nrresults (p_info res)"
    and "length data = 7 + device_nrresults (p_info res)"
    and "parse_reslines data [6..<6 + device_nrresults (p_info res)] = (w, Inr (p_reslog res))"
    and "parse_checksum (data ! (6 + device_nrresults (p_info res))) = Inr (p_checksum res)"
proof -
  from assms obtain info where info: "parse_info data = Inr info"
    by (cases "parse_info data") (simp_all add: parse_result_def)
  define n where "n = device_nrresults info"
  note pr = assms [unfolded parse_result_def info sum.case Let_def INFO_SIZE_def, folded n_def]
  have n0: "n \<noteq> 0"
  proof
    assume "n = 0"
    with pr show False
      by (simp split: if_splits)
  qed
  obtain w' X where rl: "parse_reslines data [6..<6 + n] = (w', X)"
    by (cases "parse_reslines data [6..<6 + n]")
  from pr n0 have five: "5 < length data"
    by (simp add: item_def split: if_splits)
  with pr n0 have len: "length data = 7 + n"
    by (simp add: item_def split: if_splits)
  from pr n0 five len obtain reslog where X: "X = Inr reslog"
    by (cases X) (simp_all add: item_def rl split: if_splits)
  from pr n0 five len obtain c where c: "parse_checksum (data ! (6 + n)) = Inr c"
    by (cases "parse_checksum (data ! (6 + n))")
       (simp_all add: item_def rl X split: if_splits)
  from pr n0 five len have res: "w = w'" "res = \<lparr>p_info = info, p_reslog = reslog, p_checksum = c\<rparr>"
    by (simp_all add: item_def rl X c split: if_splits)
  show "parse_info data = Inr (p_info res)" using info res by simp
  show "0 < device_nrresults (p_info res)" using n0 res by (simp add: n_def)
  show "length data = 7 + device_nrresults (p_info res)" using len res by (simp add: n_def)
  show "parse_reslines data [6..<6 + device_nrresults (p_info res)] = (w, Inr (p_reslog res))"
    using rl X res by (simp add: n_def del: parse_reslines.simps)
  show "parse_checksum (data ! (6 + device_nrresults (p_info res))) = Inr (p_checksum res)"
    using c res by (simp add: n_def)
qed

text \<open>A response with two readings and the checksum that goes with them.\<close>

lemma sample_parse:
  "parse_result ['''', ''0.22'', ''0.22'', ''Jan  01 2017 12:00:00'', ''002'', '''',
      ''100  Jun  01 2017 12:00 00 0x00'', ''087  Dec  31 2016 23:59 01 0x01'', ''0x13B9  END'']
   = ([''TYPE == 01  NORMALLY type == 00''],
      Inr \<lparr>p_info = \<lparr>device_version = ''0.22'', software_revision = ''0.22'',
              device_serialno = ''N/A'', device_glucose_unit = MG_DL,
              device_current_date_time =
                \<lparr>dt_year = 2017, dt_month = 1, dt_day = 1,
                 dt_hour = 12, dt_minute = 0, dt_second = 0\<rparr>,
              device_nrresults = 2\<rparr>,
            p_reslog =
              [\<lparr>r_value = Finite 100, r_day = 1, r_month = 6, r_year = 2017, r_hour = 12,
                r_minute = 0,
                r_timestamp = \<lparr>dt_year = 2017, dt_month = 6, dt_day = 1,
                               dt_hour = 12, dt_minute = 0, dt_second = 0\<rparr>,
                r_READING = ''100'', r_TYPE = ''00'', r_SENTINEL = ''0x00''\<rparr>,
               \<lparr>r_value = Finite 87, r_day = 31, r_month = 12, r_year = 2016, r_hour = 23,
                r_minute = 59,
                r_timestamp = \<lparr>dt_year = 2016, dt_month = 12, dt_day = 31,
                               dt_hour = 23, dt_minute = 59, dt_second = 0\<rparr>,
                r_READING = ''087'', r_TYPE = ''01'', r_SENTINEL = ''0x01''\<rparr>],
            p_checksum = 5049\<rparr>)"
  by code_simp

text \<open>
  Claim C5. When \<^verbatim>\<open>_parse_result\<close> accepts a response whose information block reports
  the count \<open>N\<close>, the list of readings has \<open>N\<close> records, and the record at position \<open>i\<close>
  is the one that \<^verbatim>\<open>_parse_resline\<close> gives for the reading line \<open>i\<close> of the response,
  line \<open>6 + i\<close>.
\<close>

theorem reslog_in_transcript_order:
  assumes "parse_result data = (w, Inr res)"
  shows "parse_info data = Inr (p_info res)
       \<and> length (p_reslog res) = device_nrresults (p_info res)
       \<and> (\<forall>i < device_nrresults (p_info res).
             6 + i < length data
           \<and> snd (parse_resline (data ! (6 + i)) (6 + i)) = Inr (p_reslog res ! i))"
proof -
  let ?n = "device_nrresults (p_info res)"
  note rl = parse_reslines_Inr [OF parse_result_Inr(4) [OF assms]]
  from rl have len: "length (p_reslog res) = ?n" by simp
  have "6 + i < length data
      \<and> snd (parse_resline (data ! (6 + i)) (6 + i)) = Inr (p_reslog res ! i)"
    if "i < ?n" for i
  proof -
    from that have "i < length [6..<6 + ?n]" "[6..<6 + ?n] ! i = 6 + i" by simp_all
    with rl show ?thesis by metis
  qed
  with len parse_result_Inr(1) [OF assms] show ?thesis by blast
qed

theorem reslog_in_transcript_order_witness:
  "parse_result ['''', ''0.22'', ''0.22'', ''Jan  01 2017 12:00:00'', ''002'', '''',
      ''100  Jun  01 2017 12:00 00 0x00'', ''087  Dec  31 2016 23:59 01 0x01'', ''0x13B9  END'']
   = ([''TYPE == 01  NORMALLY type == 00''],
      Inr \<lparr>p_info = \<lparr>device_version = ''0.22'', software_revision = ''0.22'',
              device_serialno = ''N/A'', device_glucose_unit = MG_DL,
              device_current_date_time =
                \<lparr>dt_year = 2017, dt_month = 1, dt_day = 1,
                 dt_hour = 12, dt_minute = 0, dt_second = 0\<rparr>,
              device_nrresults = 2\<rparr>,
            p_reslog =
              [\<lparr>r_value = Finite 100, r_day = 1, r_month = 6, r_year = 2017, r_hour = 12,
                r_minute = 0,
                r_timestamp = \<lparr>dt_year = 2017, dt_month = 6, dt_day = 1,
                               dt_hour = 12, dt_minute = 0, dt_second = 0\<rparr>,
                r_READING = ''100'', r_TYPE = ''00'', r_SENTINEL = ''0x00''\<rparr>,
               \<lparr>r_value = Finite 87, r_day = 31, r_month = 12, r_year = 2016, r_hour = 23,
                r_minute = 59,
                r_timestamp = \<lparr>dt_year = 2016, dt_month = 12, dt_day = 31,
                               dt_hour = 23, dt_minute = 59, dt_second = 0\<rparr>,
                r_READING = ''087'', r_TYPE = ''01'', r_SENTINEL = ''0x01''\<rparr>],
            p_checksum = 5049\<rparr>)
   \<and> snd (parse_resline ''100  Jun  01 2017 12:00 00 0x00'' 6)
       = Inr \<lparr>r_value = Finite 100, r_day = 1, r_month = 6, r_year = 2017, r_hour = 12,
              r_minute = 0,
              r_timestamp = \<lparr>dt_year = 2017, dt_month = 6, dt_day = 1,
                             dt_hour = 12, dt_minute = 0, dt_second = 0\<rparr>,
              r_READING = ''100'', r_TYPE = ''00'', r_SENTINEL = ''0x00''\<rparr>
   \<and> snd (parse_resline ''087  Dec  31 2016 23:59 01 0x01'' 7)
       = Inr \<lparr>r_value = Finite 87, r_day = 31, r_month = 12, r_year = 2016, r_hour = 23,
              r_minute = 59,
              r_timestamp = \<lparr>dt_year = 2016, dt_month = 12, dt_day = 31,
                             dt_hour = 23, dt_minute = 59, dt_second = 0\<rparr>,
              r_READING = ''087'', r_TYPE = ''01'', r_SENTINEL = ''0x01''\<rparr>"
proof -
  note order = reslog_in_transcript_order [OF sample_parse]
  from order have at: "\<And>i. i < 2 \<Longrightarrow>
      snd (parse_resline
            (['''', ''0.22'', ''0.22'', ''Jan  01 2017 12:00:00'', ''002'', '''',
              ''100  Jun  01 2017 12:00 00 0x00'', ''087  Dec  31 2016 23:59 01 0x01'',
              ''0x13B9  END''] ! (6 + i)) (6 + i))
      = Inr ([\<lparr>r_value = Finite 100, r_day = 1, r_month = 6, r_year = 2017, r_hour = 12,
                r_minute = 0,
                r_timestamp = \<lparr>dt_year = 2017, dt_month = 6, dt_day = 1,
                               dt_hour = 12, dt_minute = 0, dt_second = 0\<rparr>,
                r_READING = ''100'', r_TYPE = ''00'', r_SENTINEL = ''0x00''\<rparr>,
               \<lparr>r_value = Finite 87, r_day = 31, r_month = 12, r_year = 2016, r_hour = 23,
                r_minute = 59,
                r_timestamp = \<lparr>dt_year = 2016, dt_month = 12, dt_day = 31,
                               dt_hour = 23, dt_minute = 59, dt_second = 0\<rparr>,
                r_READING = ''087'', r_TYPE = ''01'', r_SENTINEL = ''0x01''\<rparr>] ! i)"
    by simp
  from at [of 0] at [of 1] sample_parse show ?thesis by simp
qed

subsection \<open>The checksum\<close>





end
